theory Spec2Isabelle
  imports Main
begin

section \<open>Data model\<close>

text \<open>
  The unit flowing through the producers is \<^verbatim>\<open>requests.DNSRequest\<close>. Its declaration
  lives in another package; the fields below are the ones \<^verbatim>\<open>enum/brute.go\<close> reads and
  writes. The element type of \<^verbatim>\<open>Records\<close> is left as a type parameter: the producers
  only take the length of that slice and hand the request to
  \<^verbatim>\<open>hasCNAMERecord\<close>/\<^verbatim>\<open>hasARecords\<close>. The tag constants \<^verbatim>\<open>requests.BRUTE\<close>,
  \<^verbatim>\<open>requests.ALT\<close> and \<^verbatim>\<open>requests.GUESS\<close> are three distinct provenance tags; every
  other tag value is \<open>OtherTag\<close>.
\<close>

datatype Tag = BRUTE | ALT | GUESS | OtherTag string

record 'r DNSRequest =
  Name :: string
  Domain' :: string
  Records :: "'r list"
  Tag :: Tag
  Source :: string

text \<open>
  \<^verbatim>\<open>Enumeration.Config\<close>: the feature toggles, wordlists and thresholds read by the
  producers, together with the two scope methods \<^verbatim>\<open>IsDomainInScope\<close> and
  \<^verbatim>\<open>WhichDomain\<close>, whose bodies are outside this file and are therefore carried as
  function-valued fields.
\<close>

record Config =
  BruteForcing :: bool
  Alterations :: bool
  Wordlist :: "string list"
  AltWordlist :: "string list"
  FlipNumbers :: bool
  AddNumbers :: bool
  FlipWords :: bool
  AddWords :: bool
  EditDistance :: int
  MinForWordFlip :: int
  IsDomainInScope :: "string \<Rightarrow> bool"
  WhichDomain :: "string \<Rightarrow> string"

text \<open>
  The \<^verbatim>\<open>Enumeration\<close> object every manager points to. Besides the configuration it
  carries the collaborators the managers call: the methods \<^verbatim>\<open>hasCNAMERecord\<close> and
  \<^verbatim>\<open>hasARecords\<close>, the package-level \<^verbatim>\<open>requests.SanitizeDNSRequest\<close> (which rewrites
  the request in place, here: returns the rewritten request), and the order in which a
  Go \<^verbatim>\<open>range\<close> loop visits the elements of a string set (unspecified by the
  language, so any function may stand for it).
\<close>

record 'r Enumeration =
  Config :: Config
  hasCNAMERecord :: "'r DNSRequest \<Rightarrow> bool"
  hasARecords :: "'r DNSRequest \<Rightarrow> bool"
  SanitizeDNSRequest :: "'r DNSRequest \<Rightarrow> 'r DNSRequest"
  rangeOrder :: "string list \<Rightarrow> string list"

subsection \<open>Queue, filter and string-set primitives\<close>

text \<open>
  Modelled from the spec: \<^verbatim>\<open>queue.Queue\<close> is the FIFO primitive (append,
  pop-next-or-empty, length). A queue is the list of its elements, oldest first.
\<close>

definition queue_Append :: "'a list \<Rightarrow> 'a \<Rightarrow> 'a list" where
  "queue_Append q x = q @ [x]"

definition queue_Next :: "'a list \<Rightarrow> ('a \<times> 'a list) option" where
  "queue_Next q = (case q of [] \<Rightarrow> None | x # q' \<Rightarrow> Some (x, q'))"

definition queue_Len :: "'a list \<Rightarrow> int" where
  "queue_Len q = int (length q)"

text \<open>
  Modelled from the spec: \<^verbatim>\<open>stringfilter.Filter\<close> is the duplicate-name filter, which
  ``reports and records whether a name has been seen before''. A filter is the list of
  the names it has seen; \<open>Duplicate\<close> returns the answer and the updated filter.
\<close>

definition NewStringFilter :: "string list" where
  "NewStringFilter = []"

definition Duplicate :: "string list \<Rightarrow> string \<Rightarrow> bool \<times> string list" where
  "Duplicate f s = (if s \<in> set f then (True, f) else (False, s # f))"

text \<open>
  Modelled from the spec: \<^verbatim>\<open>stringset.Set\<close> is the name-set primitive
  (``insertion-order-irrelevant deduplication of strings with bulk insert''). A set is a
  list without repetitions.
\<close>

definition ss_Insert :: "string list \<Rightarrow> string \<Rightarrow> string list" where
  "ss_Insert s x = (if x \<in> set s then s else s @ [x])"

definition ss_InsertMany :: "string list \<Rightarrow> string list \<Rightarrow> string list" where
  "ss_InsertMany s xs = foldl ss_Insert s xs"

definition ss_New :: "string list \<Rightarrow> string list" where
  "ss_New xs = ss_InsertMany [] xs"

definition ss_Len :: "string list \<Rightarrow> int" where
  "ss_Len s = int (length s)"

section \<open>BruteManager\<close>

text \<open>
  The state of a \<^verbatim>\<open>BruteManager\<close>: the queue of accepted base requests, the duplicate
  filter, and the cursor \<open>(curReq, wordlistIdx)\<close>. The \<^verbatim>\<open>enum\<close> pointer is passed
  to every operation as the argument \<open>e\<close>; the mutex is not modelled (one call runs at
  a time).
\<close>

record 'r BruteManager =
  queue :: "'r DNSRequest list"
  filter' :: "string list"
  wordlistIdx :: int
  curReq :: "'r DNSRequest option"

definition NewBruteManager :: "'r BruteManager" where
  "NewBruteManager = \<lparr>queue = [], filter' = NewStringFilter, wordlistIdx = 0, curReq = None\<rparr>"

text \<open>
  \<^verbatim>\<open>InputName\<close> has six ways out: five early returns and the final append. The
  outcome names the one taken.
\<close>

datatype InputOutcome = Ignored | OutOfScope | Disabled | DuplicateName | BadRecords | Enqueued

text \<open>
  \<^verbatim>\<open>InputName\<close>, returning the way out together with the state. A nil request is
  \<open>None\<close>. \<open>Duplicate\<close> is only evaluated when brute forcing is enabled
  (\<^verbatim>\<open>||\<close> short-circuits), and it records the name before the DNS evidence is
  looked at.
\<close>

definition BruteInputNameTraced ::
  "'r Enumeration \<Rightarrow> 'r DNSRequest option \<Rightarrow> 'r BruteManager \<Rightarrow> InputOutcome \<times> 'r BruteManager" where
  "BruteInputNameTraced e req r =
     (case req of
        None \<Rightarrow> (Ignored, r)
      | Some rq \<Rightarrow>
          if Name rq = [] \<or> Domain' rq = [] then (Ignored, r)
          else
            let rq' = SanitizeDNSRequest e rq in
            if \<not> IsDomainInScope (Config e) (Name rq') then (OutOfScope, r)
            else if \<not> BruteForcing (Config e) then (Disabled, r)
            else
              let (dup, f) = Duplicate (filter' r) (Name rq') in
              if dup then (DuplicateName, r\<lparr>filter' := f\<rparr>)
              else if length (Records rq') > 0 \<and> (hasCNAMERecord e rq' \<or> \<not> hasARecords e rq')
              then (BadRecords, r\<lparr>filter' := f\<rparr>)
              else (Enqueued, r\<lparr>filter' := f, queue := queue_Append (queue r) rq'\<rparr>))"

definition BruteInputName ::
  "'r Enumeration \<Rightarrow> 'r DNSRequest option \<Rightarrow> 'r BruteManager \<Rightarrow> 'r BruteManager" where
  "BruteInputName e req r = snd (BruteInputNameTraced e req r)"

text \<open>
  The two nested loops of \<^verbatim>\<open>OutputNames\<close>, one equation per pass through a loop head.
  With \<open>curReq = None\<close> control is at the head of the outer loop (\<^verbatim>\<open>loop:\<close>);
  with \<open>curReq = Some cur\<close> it is at the head of the inner loop. \<^verbatim>\<open>break loop\<close>
  returns, \<^verbatim>\<open>continue loop\<close> re-enters with \<open>curReq = None\<close>. Indexing the wordlist
  with a negative index panics in Go: that is the result \<open>None\<close>.
\<close>

function BruteLoop ::
  "string list \<Rightarrow> int \<Rightarrow> 'r BruteManager \<Rightarrow> int \<Rightarrow> 'r DNSRequest list \<Rightarrow>
     ('r DNSRequest list \<times> 'r BruteManager) option" where
  "BruteLoop wl num r count results =
     (case curReq r of
        None \<Rightarrow>
          (case queue_Next (queue r) of
             None \<Rightarrow> Some (results, r)
           | Some (element, q) \<Rightarrow>
               BruteLoop wl num (r\<lparr>queue := q, curReq := Some element\<rparr>) count results)
      | Some cur \<Rightarrow>
          if count \<ge> num then Some (results, r)
          else if wordlistIdx r \<ge> int (length wl)
          then BruteLoop wl num (r\<lparr>curReq := None, wordlistIdx := 0\<rparr>) count results
          else if wordlistIdx r < 0 then None
          else
            let word = wl ! nat (wordlistIdx r);
                r' = r\<lparr>wordlistIdx := wordlistIdx r + 1\<rparr>
            in if word \<noteq> []
               then BruteLoop wl num r' (count + 1)
                      (results @ [\<lparr>Name = word @ ''.'' @ Name cur, Domain' = Domain' cur,
                                   Records = [], Tag = BRUTE, Source = ''Brute Forcing''\<rparr>])
               else BruteLoop wl num r' count results)"
  by pat_completeness auto
termination
  by (relation "measures
        [\<lambda>(wl, num, r, count, results).
            2 * length (queue r) + (case curReq r of None \<Rightarrow> 0 | Some _ \<Rightarrow> 1),
         \<lambda>(wl, num, r, count, results). nat (int (length wl) - wordlistIdx r)]")
     (auto simp: queue_Next_def split: list.splits)

declare BruteLoop.simps [simp del]

definition BruteOutputNames ::
  "'r Enumeration \<Rightarrow> int \<Rightarrow> 'r BruteManager \<Rightarrow> ('r DNSRequest list \<times> 'r BruteManager) option" where
  "BruteOutputNames e num r =
     (if \<not> BruteForcing (Config e) then Some ([], r)
      else BruteLoop (Wordlist (Config e)) num r 0 [])"

definition BruteStop :: "'r BruteManager \<Rightarrow> 'r BruteManager" where
  "BruteStop r = r\<lparr>curReq := None, wordlistIdx := 0, queue := [], filter' := NewStringFilter\<rparr>"

text \<open>
  A client of the manager performs a sequence of calls. A panic inside \<^verbatim>\<open>OutputNames\<close>
  ends the run (\<open>None\<close>).
\<close>

datatype 'r BruteOp = InputName "'r DNSRequest option" | OutputNames int | Stop

fun BruteStep :: "'r Enumeration \<Rightarrow> 'r BruteOp \<Rightarrow> 'r BruteManager \<Rightarrow> 'r BruteManager option" where
  "BruteStep e (InputName req) r = Some (BruteInputName e req r)"
| "BruteStep e (OutputNames num) r = map_option snd (BruteOutputNames e num r)"
| "BruteStep e Stop r = Some (BruteStop r)"

fun BruteRun :: "'r Enumeration \<Rightarrow> 'r BruteOp list \<Rightarrow> 'r BruteManager \<Rightarrow> 'r BruteManager option" where
  "BruteRun e [] r = Some r"
| "BruteRun e (op # ops) r =
     (case BruteStep e op r of None \<Rightarrow> None | Some r' \<Rightarrow> BruteRun e ops r')"

text \<open>
  Repeated \<^verbatim>\<open>OutputNames\<close> calls with the batch sizes \<open>ns\<close>; the results of the calls
  are concatenated in call order.
\<close>

fun BruteOutputMany ::
  "'r Enumeration \<Rightarrow> int list \<Rightarrow> 'r BruteManager \<Rightarrow> ('r DNSRequest list \<times> 'r BruteManager) option" where
  "BruteOutputMany e [] r = Some ([], r)"
| "BruteOutputMany e (n # ns) r =
     (case BruteOutputNames e n r of
        None \<Rightarrow> None
      | Some (out, r') \<Rightarrow>
          (case BruteOutputMany e ns r' of
             None \<Rightarrow> None
           | Some (outs, r'') \<Rightarrow> Some (out @ outs, r'')))"

subsection \<open>The traversal the cursor stands for\<close>

text \<open>
  The cursor invariant: the index lies within the wordlist, and it is 0 whenever there
  is no current base request.
\<close>

definition brute_inv :: "string list \<Rightarrow> 'r BruteManager \<Rightarrow> bool" where
  "brute_inv wl r =
     (0 \<le> wordlistIdx r \<and> wordlistIdx r \<le> int (length wl) \<and>
      (curReq r = None \<longrightarrow> wordlistIdx r = 0))"

text \<open>
  The candidates of one base request over a list of words: one candidate
  \<open>word + "." + base name\<close> per non-empty word, in the order of the words.
\<close>

definition brute_pairs :: "'r DNSRequest \<Rightarrow> string list \<Rightarrow> 'r DNSRequest list" where
  "brute_pairs cur ws =
     map (\<lambda>word. \<lparr>Name = word @ ''.'' @ Name cur, Domain' = Domain' cur,
                   Records = [], Tag = BRUTE, Source = ''Brute Forcing''\<rparr>)
       (filter (\<lambda>word. word \<noteq> []) ws)"

text \<open>
  The cross product of a list of base requests with the wordlist in wordlist-minor
  order: all candidates of the first base, then all of the second, and so on.
\<close>

definition brute_cross :: "string list \<Rightarrow> 'r DNSRequest list \<Rightarrow> 'r DNSRequest list" where
  "brute_cross wl bases = concat (map (\<lambda>b. brute_pairs b wl) bases)"

text \<open>
  What is left of the traversal in a state: the current base from the cursor index on,
  then the whole wordlist for every queued base.
\<close>

definition brute_remaining :: "string list \<Rightarrow> 'r BruteManager \<Rightarrow> 'r DNSRequest list" where
  "brute_remaining wl r =
     (case curReq r of None \<Rightarrow> [] | Some cur \<Rightarrow> brute_pairs cur (drop (nat (wordlistIdx r)) wl))
     @ brute_cross wl (queue r)"

section \<open>AlterationsManager\<close>

text \<open>
  \<^verbatim>\<open>alts.State\<close>, the state of the mutation engine: the two exported thresholds that
  \<^verbatim>\<open>NewAlterationsManager\<close> assigns, and the wordlist handed to \<^verbatim>\<open>alts.NewState\<close>.
\<close>

record State =
  MinForWordFlip' :: int
  EditDistance' :: int
  wordlist :: "string list"

text \<open>
  The operations of the \<^verbatim>\<open>alts\<close> package used by the manager. Their bodies are in
  another package, so they are parameters: the constructor \<^verbatim>\<open>NewState\<close> and the six
  generation methods, each from an engine state and a name to a slice of names.
\<close>

record alts =
  NewState :: "string list \<Rightarrow> State"
  FlipNumbers' :: "State \<Rightarrow> string \<Rightarrow> string list"
  AppendNumbers :: "State \<Rightarrow> string \<Rightarrow> string list"
  FlipWords' :: "State \<Rightarrow> string \<Rightarrow> string list"
  AddSuffixWord :: "State \<Rightarrow> string \<Rightarrow> string list"
  AddPrefixWord :: "State \<Rightarrow> string \<Rightarrow> string list"
  FuzzyLabelSearches :: "State \<Rightarrow> string \<Rightarrow> string list"

record 'r AlterationsManager =
  inQueue :: "'r DNSRequest list"
  outQueue :: "'r DNSRequest list"
  altState :: State

definition NewAlterationsManager :: "'r Enumeration \<Rightarrow> alts \<Rightarrow> 'r AlterationsManager" where
  "NewAlterationsManager e A =
     (let am = \<lparr>inQueue = [], outQueue = [], altState = NewState A (AltWordlist (Config e))\<rparr>;
          am = am\<lparr>altState := (altState am)\<lparr>MinForWordFlip' := MinForWordFlip (Config e)\<rparr>\<rparr>;
          am = am\<lparr>altState := (altState am)\<lparr>EditDistance' := EditDistance (Config e)\<rparr>\<rparr>
      in am)"

text \<open>
  \<^verbatim>\<open>strings.Split(s, sep)\<close> for a one-character separator: the pieces of \<open>s\<close>
  between the separators; one piece more than there are separators.
\<close>

fun Split :: "string \<Rightarrow> char \<Rightarrow> string list" where
  "Split [] sep = [[]]"
| "Split (c # cs) sep =
     (if c = sep then [] # Split cs sep
      else (case Split cs sep of [] \<Rightarrow> [[c]] | w # ws \<Rightarrow> (c # w) # ws))"

definition AltInputName ::
  "'r Enumeration \<Rightarrow> 'r DNSRequest option \<Rightarrow> 'r AlterationsManager \<Rightarrow> 'r AlterationsManager" where
  "AltInputName e req r =
     (case req of
        None \<Rightarrow> r
      | Some rq \<Rightarrow>
          if Name rq = [] \<or> Domain' rq = [] then r
          else
            let rq' = SanitizeDNSRequest e rq in
            if \<not> IsDomainInScope (Config e) (Name rq') then r
            else if \<not> Alterations (Config e) then r
            else if length (Split (Name rq') CHR ''.'') \<le> length (Split (Domain' rq') CHR ''.'')
            then r
            else r\<lparr>inQueue := queue_Append (inQueue r) rq'\<rparr>)"

text \<open>
  The \<^verbatim>\<open>range names\<close> loop of \<^verbatim>\<open>generateAlts\<close> over the names in iteration order:
  out-of-scope names are skipped, every other name is counted and appended to the
  ready-output queue.
\<close>

fun generateAltsLoop ::
  "'r Enumeration \<Rightarrow> 'r DNSRequest \<Rightarrow> string list \<Rightarrow> int \<Rightarrow> 'r AlterationsManager \<Rightarrow>
     int \<times> 'r AlterationsManager" where
  "generateAltsLoop e req [] count r = (count, r)"
| "generateAltsLoop e req (name # rest) count r =
     (if \<not> IsDomainInScope (Config e) name then generateAltsLoop e req rest count r
      else generateAltsLoop e req rest (count + 1)
             (r\<lparr>outQueue := queue_Append (outQueue r)
                   \<lparr>Name = name, Domain' = Domain' req, Records = [], Tag = ALT,
                      Source = ''Alterations''\<rparr>\<rparr>))"

text \<open>The name set \<^verbatim>\<open>generateAlts\<close> builds for one request.\<close>

definition altNames :: "'r Enumeration \<Rightarrow> alts \<Rightarrow> State \<Rightarrow> 'r DNSRequest \<Rightarrow> string list" where
  "altNames e A st req =
     (let names = ss_New [];
          names = (if FlipNumbers (Config e)
                   then ss_InsertMany names (FlipNumbers' A st (Name req)) else names);
          names = (if AddNumbers (Config e)
                   then ss_InsertMany names (AppendNumbers A st (Name req)) else names);
          names = (if FlipWords (Config e)
                   then ss_InsertMany names (FlipWords' A st (Name req)) else names);
          names = (if AddWords (Config e)
                   then ss_InsertMany (ss_InsertMany names (AddSuffixWord A st (Name req)))
                          (AddPrefixWord A st (Name req))
                   else names);
          names = (if EditDistance (Config e) > 0
                   then ss_InsertMany names (FuzzyLabelSearches A st (Name req)) else names)
      in names)"

definition generateAlts ::
  "'r Enumeration \<Rightarrow> alts \<Rightarrow> 'r AlterationsManager \<Rightarrow> int \<times> 'r AlterationsManager" where
  "generateAlts e A r =
     (case queue_Next (inQueue r) of
        None \<Rightarrow> (0, r)
      | Some (req, q) \<Rightarrow>
          generateAltsLoop e req (rangeOrder e (altNames e A (altState r) req)) 0
            (r\<lparr>inQueue := q\<rparr>))"

lemma generateAltsLoop_inQueue:
  "inQueue (snd (generateAltsLoop e req names count r)) = inQueue r"
  by (induction names arbitrary: count r) simp_all

lemma generateAlts_inQueue:
  "inQueue (snd (generateAlts e A r)) = tl (inQueue r)"
  by (simp add: generateAlts_def queue_Next_def generateAltsLoop_inQueue split: list.splits)

lemma generateAlts_empty:
  "inQueue r = [] \<Longrightarrow> generateAlts e A r = (0, r)"
  by (simp add: generateAlts_def queue_Next_def)

lemma generateAlts_progress:
  assumes "(c, r') = generateAlts e A r" and "c \<noteq> 0"
  shows "length (inQueue r') < length (inQueue r)"
proof -
  have ne: "inQueue r \<noteq> []"
    using assms generateAlts_empty[of r e A] by auto
  have "inQueue r' = tl (inQueue r)"
    using assms(1) generateAlts_inQueue[of e A r] by (metis snd_conv)
  with ne show ?thesis by simp
qed

text \<open>
  The refill loop of \<^verbatim>\<open>OutputNames\<close>: while fewer than \<open>num\<close> items are buffered,
  run one expansion step, and leave the loop when that step reports zero new names.
\<close>

function AltRefill ::
  "'r Enumeration \<Rightarrow> alts \<Rightarrow> int \<Rightarrow> 'r AlterationsManager \<Rightarrow> 'r AlterationsManager" where
  "AltRefill e A num r =
     (if num > queue_Len (outQueue r)
      then (case generateAlts e A r of
              (c, r') \<Rightarrow> if c = 0 then r' else AltRefill e A num r')
      else r)"
  by pat_completeness auto
termination
  by (relation "measure (\<lambda>(e, A, num, r). length (inQueue r))")
     (auto dest: generateAlts_progress)

declare AltRefill.simps [simp del]

text \<open>The drain loop of \<^verbatim>\<open>OutputNames\<close>: up to \<open>num\<close> items leave the ready-output queue.\<close>

function AltDrain ::
  "int \<Rightarrow> int \<Rightarrow> 'r AlterationsManager \<Rightarrow> 'r DNSRequest list \<Rightarrow>
     'r DNSRequest list \<times> 'r AlterationsManager" where
  "AltDrain num i r results =
     (if i < num
      then (case queue_Next (outQueue r) of
              None \<Rightarrow> (results, r)
            | Some (element, q) \<Rightarrow> AltDrain num (i + 1) (r\<lparr>outQueue := q\<rparr>) (results @ [element]))
      else (results, r))"
  by pat_completeness auto
termination
  by (relation "measure (\<lambda>(num, i, r, results). nat (num - i))") auto

declare AltDrain.simps [simp del]

definition AltOutputNames ::
  "'r Enumeration \<Rightarrow> alts \<Rightarrow> int \<Rightarrow> 'r AlterationsManager \<Rightarrow>
     'r DNSRequest list \<times> 'r AlterationsManager" where
  "AltOutputNames e A num r =
     (if \<not> Alterations (Config e) then ([], r)
      else AltDrain num 0 (AltRefill e A num r) [])"

definition AltStop :: "'r Enumeration \<Rightarrow> alts \<Rightarrow> 'r AlterationsManager \<Rightarrow> 'r AlterationsManager" where
  "AltStop e A r =
     r\<lparr>inQueue := [], outQueue := [], altState := NewState A (AltWordlist (Config e))\<rparr>"

section \<open>GuessManager\<close>

text \<open>
  The operations of \<^verbatim>\<open>alts.MarkovModel\<close> used by the manager, over a model type
  \<open>'m\<close>. Their bodies are in another package, so they are parameters. Sampling may
  change the model (its random source), so \<open>GenerateNames\<close> returns the names and the
  model afterwards.
\<close>

record 'm markov =
  NewMarkovModel :: "int \<Rightarrow> 'm"
  Train :: "'m \<Rightarrow> string \<Rightarrow> 'm"
  TotalTrainings :: "'m \<Rightarrow> int"
  GenerateNames :: "'m \<Rightarrow> int \<Rightarrow> string list \<times> 'm"
  AddSubdomain :: "'m \<Rightarrow> string \<Rightarrow> 'm"

record 'm GuessManager =
  markovModel :: 'm
  ttLastOutput :: int

definition NewGuessManager :: "'m markov \<Rightarrow> 'm GuessManager" where
  "NewGuessManager M = \<lparr>markovModel = NewMarkovModel M 3, ttLastOutput = 0\<rparr>"

definition GuessInputName ::
  "'r Enumeration \<Rightarrow> 'm markov \<Rightarrow> 'r DNSRequest option \<Rightarrow> 'm GuessManager \<Rightarrow> 'm GuessManager" where
  "GuessInputName e M req r =
     (case req of
        None \<Rightarrow> r
      | Some rq \<Rightarrow>
          if Name rq = [] \<or> Domain' rq = [] then r
          else
            let rq' = SanitizeDNSRequest e rq in
            if \<not> IsDomainInScope (Config e) (Name rq') then r
            else if \<not> Alterations (Config e) then r
            else if length (Split (Name rq') CHR ''.'') \<le> length (Split (Domain' rq') CHR ''.'')
            then r
            else r\<lparr>markovModel := Train M (markovModel r) (Name rq')\<rparr>)"

text \<open>
  The top-up loop \<^verbatim>\<open>for num > guesses.Len() { guesses.InsertMany(GenerateNames(num)...) }\<close>.
  Nothing bounds the number of rounds, so the loop is a partial function: \<open>None\<close>
  stands for a loop that never exits.
\<close>

partial_function (option) GuessTopUp ::
  "'m markov \<Rightarrow> int \<Rightarrow> 'm \<Rightarrow> string list \<Rightarrow> ('m \<times> string list) option" where
  "GuessTopUp M num m guesses =
     (if num > ss_Len guesses
      then (let p = GenerateNames M m num
            in GuessTopUp M num (snd p) (ss_InsertMany guesses (fst p)))
      else Some (m, guesses))"

text \<open>The sampling phase: the first, doubled round and then the top-up loop.\<close>

definition GuessSample :: "'m markov \<Rightarrow> int \<Rightarrow> 'm \<Rightarrow> ('m \<times> string list) option" where
  "GuessSample M num m =
     (let p = GenerateNames M m (num * 2)
      in GuessTopUp M num (snd p) (ss_New (fst p)))"

text \<open>
  The final \<^verbatim>\<open>range guesses\<close> loop over the names in iteration order: it stops once
  \<open>num\<close> requests have been collected, skips a name with no domain and the empty
  name, and collects every other name.
\<close>

fun GuessCollect ::
  "'r Enumeration \<Rightarrow> int \<Rightarrow> string list \<Rightarrow> int \<Rightarrow> 'r DNSRequest list \<Rightarrow> 'r DNSRequest list" where
  "GuessCollect e num [] count results = results"
| "GuessCollect e num (name # rest) count results =
     (if count \<ge> num then results
      else
        let domain = WhichDomain (Config e) name in
        if domain = [] \<or> name = [] then GuessCollect e num rest count results
        else GuessCollect e num rest (count + 1)
               (results @ [\<lparr>Name = name, Domain' = domain, Records = [], Tag = GUESS,
                              Source = ''Markov Model''\<rparr>]))"

definition GuessOutputNames ::
  "'r Enumeration \<Rightarrow> 'm markov \<Rightarrow> int \<Rightarrow> 'm GuessManager \<Rightarrow>
     ('r DNSRequest list \<times> 'm GuessManager) option" where
  "GuessOutputNames e M num r =
     (if \<not> Alterations (Config e) then Some ([], r)
      else
        let last = ttLastOutput r in
        if TotalTrainings M (markovModel r) < 50 \<or> TotalTrainings M (markovModel r) \<le> last
        then Some ([], r)
        else
          let r1 = r\<lparr>ttLastOutput := TotalTrainings M (markovModel r)\<rparr> in
          (case GuessSample M num (markovModel r1) of
             None \<Rightarrow> None
           | Some (m, guesses) \<Rightarrow>
               Some (GuessCollect e num (rangeOrder e guesses) 0 [], r1\<lparr>markovModel := m\<rparr>)))"

definition GuessAddSubdomain :: "'m markov \<Rightarrow> string \<Rightarrow> 'm GuessManager \<Rightarrow> 'm GuessManager" where
  "GuessAddSubdomain M sub r = r\<lparr>markovModel := AddSubdomain M (markovModel r) sub\<rparr>"

definition GuessStop :: "'m markov \<Rightarrow> 'm GuessManager \<Rightarrow> 'm GuessManager" where
  "GuessStop M r = r\<lparr>markovModel := NewMarkovModel M 3\<rparr>"

section \<open>Concrete inputs\<close>

text \<open>
  A configuration with every feature enabled but no mutation rule, a three-entry
  wordlist whose middle entry is empty, and the single domain \<open>example.com\<close>. DNS
  records are represented by their type codes (1 for A, 5 for CNAME).
\<close>

definition example_Config :: Config where
  "example_Config =
     \<lparr>BruteForcing = True, Alterations = True, Wordlist = [''www'', [], ''mail''],
      AltWordlist = [], FlipNumbers = False, AddNumbers = False, FlipWords = False,
      AddWords = False, EditDistance = 0, MinForWordFlip = 2,
      IsDomainInScope = (\<lambda>name. True),
      WhichDomain = (\<lambda>name. if name = ''www.other.org'' then [] else ''example.com'')\<rparr>"

definition example_enum :: "nat Enumeration" where
  "example_enum =
     \<lparr>Config = example_Config,
      hasCNAMERecord = (\<lambda>rq. 5 \<in> set (Records rq)),
      hasARecords = (\<lambda>rq. 1 \<in> set (Records rq)),
      SanitizeDNSRequest = (\<lambda>rq. rq),
      rangeOrder = (\<lambda>names. names)\<rparr>"

definition example_req :: "string \<Rightarrow> nat list \<Rightarrow> nat DNSRequest" where
  "example_req name recs =
     \<lparr>Name = name, Domain' = ''example.com'', Records = recs, Tag = OtherTag ''dns'',
      Source = ''DNS''\<rparr>"

section \<open>BruteManager: the cursor and the traversal\<close>

lemma BruteLoop_spec:
  "brute_inv wl r \<Longrightarrow>
   \<exists>r'. BruteLoop wl num r count results =
           Some (results @ take (nat (num - count)) (brute_remaining wl r), r') \<and>
         brute_inv wl r' \<and>
         brute_remaining wl r' = drop (nat (num - count)) (brute_remaining wl r) \<and>
         filter' r' = filter' r"
proof (induction wl num r count results rule: BruteLoop.induct)
  case (1 wl num r count results)
  show ?case
  proof (cases "curReq r")
    case None
    show ?thesis
    proof (cases "queue r")
      case Nil
      with None 1(5) show ?thesis
        by (subst BruteLoop.simps) (simp add: queue_Next_def brute_remaining_def brute_cross_def)
    next
      case (Cons element q)
      let ?r1 = "r\<lparr>queue := q, curReq := Some element\<rparr>"
      have inv1: "brute_inv wl ?r1" using 1(5) None by (simp add: brute_inv_def)
      have rem1: "brute_remaining wl ?r1 = brute_remaining wl r"
        using None Cons 1(5) by (simp add: brute_remaining_def brute_cross_def brute_inv_def)
      have qn: "queue_Next (queue r) = Some (element, q)"
        using Cons by (simp add: queue_Next_def)
      from 1(1)[OF None qn refl inv1] None qn rem1
      show ?thesis
        by (subst BruteLoop.simps) simp
    qed
  next
    case (Some cur)
    show ?thesis
    proof (cases "count \<ge> num")
      case True
      with Some 1(5) show ?thesis
        by (subst BruteLoop.simps) simp
    next
      case False
      note notdone = False
      show ?thesis
      proof (cases "wordlistIdx r \<ge> int (length wl)")
        case True
        let ?r1 = "r\<lparr>curReq := None, wordlistIdx := 0\<rparr>"
        have inv1: "brute_inv wl ?r1" by (simp add: brute_inv_def)
        have rem1: "brute_remaining wl ?r1 = brute_remaining wl r"
          using Some True by (simp add: brute_remaining_def brute_pairs_def)
        from 1(2)[OF Some notdone True inv1] Some notdone True rem1
        show ?thesis
          by (subst BruteLoop.simps) simp
      next
        case False
        note inrange = False
        have nonneg: "\<not> wordlistIdx r < 0" using 1(5) by (simp add: brute_inv_def)
        let ?i = "nat (wordlistIdx r)"
        let ?word = "wl ! ?i"
        let ?r1 = "r\<lparr>wordlistIdx := wordlistIdx r + 1\<rparr>"
        have ilt: "?i < length wl" using inrange nonneg by simp
        have inv1: "brute_inv wl ?r1" using inrange nonneg Some by (simp add: brute_inv_def)
        have dr: "drop ?i wl = ?word # drop (nat (wordlistIdx r + 1)) wl"
          using ilt nonneg by (simp add: Cons_nth_drop_Suc nat_add_distrib)
        show ?thesis
        proof (cases "?word \<noteq> []")
          case True
          have rem1: "brute_remaining wl r =
                \<lparr>Name = ?word @ ''.'' @ Name cur, Domain' = Domain' cur,
                   Records = [], Tag = BRUTE, Source = ''Brute Forcing''\<rparr> # brute_remaining wl ?r1"
            using Some True dr by (simp add: brute_remaining_def brute_pairs_def)
          have k: "nat (num - count) = Suc (nat (num - (count + 1)))" using notdone by simp
          from 1(3)[OF Some notdone inrange nonneg refl refl True inv1] Some notdone inrange nonneg True
          show ?thesis
            by (subst BruteLoop.simps) (simp add: rem1 k Let_def)
        next
          case False
          have rem1: "brute_remaining wl r = brute_remaining wl ?r1"
            using Some False dr by (simp add: brute_remaining_def brute_pairs_def)
          from 1(4)[OF Some notdone inrange nonneg refl refl False inv1] Some notdone inrange nonneg False
          show ?thesis
            by (subst BruteLoop.simps) (simp add: rem1 Let_def)
        qed
      qed
    qed
  qed
qed


lemma BruteOutputNames_spec:
  assumes "BruteForcing (Config e)" and "brute_inv (Wordlist (Config e)) r"
  shows "\<exists>r'. BruteOutputNames e n r =
                 Some (take (nat n) (brute_remaining (Wordlist (Config e)) r), r') \<and>
               brute_inv (Wordlist (Config e)) r' \<and>
               brute_remaining (Wordlist (Config e)) r' =
                 drop (nat n) (brute_remaining (Wordlist (Config e)) r) \<and>
               filter' r' = filter' r"
  using BruteLoop_spec[OF assms(2), of n 0 "[]"] assms(1)
  by (simp add: BruteOutputNames_def)

lemma BruteOutputNames_inv:
  assumes "brute_inv (Wordlist (Config e)) r"
  shows "\<exists>out r'. BruteOutputNames e n r = Some (out, r') \<and>
                   brute_inv (Wordlist (Config e)) r' \<and> filter' r' = filter' r \<and>
                   length out \<le> nat n"
proof (cases "BruteForcing (Config e)")
  case True
  from BruteOutputNames_spec[OF True assms, of n] show ?thesis by auto
next
  case False
  with assms show ?thesis by (simp add: BruteOutputNames_def)
qed

lemma BruteInputName_cursor:
  "wordlistIdx (BruteInputName e req r) = wordlistIdx r \<and>
   curReq (BruteInputName e req r) = curReq r"
  by (simp add: BruteInputName_def BruteInputNameTraced_def Let_def split: option.splits prod.splits)

lemma BruteStep_inv:
  assumes "brute_inv (Wordlist (Config e)) r"
  shows "\<exists>r'. BruteStep e op r = Some r' \<and> brute_inv (Wordlist (Config e)) r'"
proof (cases op)
  case (InputName req)
  with assms BruteInputName_cursor[of e req r] show ?thesis
    by (simp add: brute_inv_def)
next
  case (OutputNames n)
  with BruteOutputNames_inv[OF assms, of n] show ?thesis by auto
next
  case Stop
  then show ?thesis by (simp add: BruteStop_def brute_inv_def)
qed

lemma BruteRun_inv:
  "brute_inv (Wordlist (Config e)) r \<Longrightarrow>
   \<exists>r'. BruteRun e ops r = Some r' \<and> brute_inv (Wordlist (Config e)) r'"
proof (induction ops arbitrary: r)
  case Nil
  then show ?case by simp
next
  case (Cons op ops)
  from BruteStep_inv[OF Cons.prems, of op] obtain r1 where
    s: "BruteStep e op r = Some r1" and i: "brute_inv (Wordlist (Config e)) r1" by blast
  from Cons.IH[OF i] s show ?case by simp
qed

lemma brute_inv_New: "brute_inv wl NewBruteManager"
  by (simp add: brute_inv_def NewBruteManager_def)

text \<open>
  C10. In every state reached from a new manager by any sequence of
  \<^verbatim>\<open>InputName\<close>, \<^verbatim>\<open>OutputNames\<close> and \<^verbatim>\<open>Stop\<close> calls (none of which panics), the
  wordlist index lies between 0 and the length of the wordlist, and it is 0 whenever
  there is no current base request.
\<close>

theorem brute_cursor_invariant:
  "\<exists>r. BruteRun e ops NewBruteManager = Some r \<and>
       0 \<le> wordlistIdx r \<and> wordlistIdx r \<le> int (length (Wordlist (Config e))) \<and>
       (curReq r = None \<longrightarrow> wordlistIdx r = 0)"
  using BruteRun_inv[OF brute_inv_New, of e ops] by (simp add: brute_inv_def)

theorem brute_cursor_invariant_witness:
  "\<exists>r. BruteRun example_enum
          [InputName (Some (example_req ''a.example.com'' [])), OutputNames 1, OutputNames 5]
          NewBruteManager = Some r \<and>
       curReq r = None \<and> wordlistIdx r = 0 \<and>
       wordlistIdx r \<le> int (length (Wordlist (Config example_enum)))"
proof -
  let ?ops = "[InputName (Some (example_req ''a.example.com'' [])), OutputNames 1, OutputNames 5]"
  have run: "BruteRun example_enum ?ops NewBruteManager =
      Some \<lparr>queue = [], filter' = [''a.example.com''], wordlistIdx = 0, curReq = None\<rparr>"
    by code_simp
  from brute_cursor_invariant[of example_enum ?ops] show ?thesis
    unfolding run by simp
qed

end
